theory Spec2Isabelle
  imports Main
begin

section \<open>JavaScript values\<close>

text \<open>
  The values that \<^verbatim>\<open>JSON.parse\<close> produces, plus \<^verbatim>\<open>undefined\<close> (a property can be
  assigned \<^verbatim>\<open>undefined\<close>). A plain object is the list of its own properties in
  the order of their creation, which is the order \<^verbatim>\<open>for (key in obj)\<close> visits them in; a
  well-formed object has no property name twice (\<open>wf\<close> below). Two things of the
  language are left out: names that are array indices, which the engine visits
  before the other names of a plain object, and the name \<^verbatim>\<open>__proto__\<close>, which an
  assignment does not store as a property. Numbers are the integers (the type
  codes of the protocol); strings are lists of code units, which for the ASCII
  characters the regular expressions look at are the characters themselves.
\<close>

datatype json = JUndef | JNull | JBool bool | JNum int | JStr string
  | JArr "json list" | JObj "(string \<times> json) list"

type_synonym props = "(string \<times> json) list"

text \<open>\<^verbatim>\<open>x instanceof Object\<close>: true of arrays and plain objects only.\<close>

fun isObject :: "json \<Rightarrow> bool" where
  "isObject (JArr xs) = True"
| "isObject (JObj kvs) = True"
| "isObject v = False"

text \<open>\<^verbatim>\<open>obj[key]\<close> on the own properties; \<open>None\<close> is \<^verbatim>\<open>undefined\<close> for a missing one.\<close>

definition getProp :: "props \<Rightarrow> string \<Rightarrow> json option" where
  "getProp obj key = map_of obj key"

text \<open>\<^verbatim>\<open>obj[key] = v\<close>: an existing property keeps its place, a new one goes last.\<close>

fun setProp :: "props \<Rightarrow> string \<Rightarrow> json \<Rightarrow> props" where
  "setProp [] key v = [(key, v)]"
| "setProp ((k, w) # obj) key v =
     (if k = key then (k, v) # obj else (k, w) # setProp obj key v)"

text \<open>\<^verbatim>\<open>delete obj[key]\<close>.\<close>

definition deleteProp :: "props \<Rightarrow> string \<Rightarrow> props" where
  "deleteProp obj key = filter (\<lambda>kv. fst kv \<noteq> key) obj"

fun depth :: "json \<Rightarrow> nat" where
  "depth (JArr xs) = Suc (foldr max (map depth xs) 0)"
| "depth (JObj kvs) = Suc (foldr max (map (\<lambda>kv. depth (snd kv)) kvs) 0)"
| "depth v = 0"


text \<open>Decimal numerals, for array indices used as property names and for
  numbers converted to strings.\<close>

fun showNat :: "nat \<Rightarrow> string" where
  "showNat n = (if n < 10 then [char_of (48 + n)]
                else showNat (n div 10) @ [char_of (48 + n mod 10)])"

declare showNat.simps [simp del]

definition showInt :: "int \<Rightarrow> string" where
  "showInt i = (if i < 0 then CHR ''-'' # showNat (nat (- i)) else showNat (nat i))"

section \<open>Key casing (helper.js)\<close>

text \<open>The character class \<^verbatim>\<open>\w\<close> is \<^verbatim>\<open>[A-Za-z0-9_]\<close>.\<close>

definition isWord :: "char \<Rightarrow> bool" where
  "isWord c = (let n = of_char c :: nat in
     (97 \<le> n \<and> n \<le> 122) \<or> (65 \<le> n \<and> n \<le> 90) \<or> (48 \<le> n \<and> n \<le> 57) \<or> n = 95)"

text \<open>\<^verbatim>\<open>toUpperCase\<close> on one character of \<^verbatim>\<open>\w\<close>: the lower-case letters move.\<close>

definition toUpperCase :: "char \<Rightarrow> char" where
  "toUpperCase c = (let n = of_char c :: nat in
     if 97 \<le> n \<and> n \<le> 122 then char_of (n - 32) else c)"

text \<open>
  \<^verbatim>\<open>key.replace(/_(\w)/g, (match, val) => val.toUpperCase())\<close>: the scan goes left to
  right; an underscore followed by a word character is replaced, with that
  character, by the character in upper case, and the scan resumes after the
  match.
\<close>

fun camelKey :: "string \<Rightarrow> string" where
  "camelKey (c # d # cs) =
     (if c = CHR ''_'' \<and> isWord d then toUpperCase d # camelKey cs
      else c # camelKey (d # cs))"
| "camelKey cs = cs"

text \<open>\<^verbatim>\<open>newKey.replace(/^(\w)/, (match, val) => val.toUpperCase())\<close>.\<close>

fun bigFirst :: "string \<Rightarrow> string" where
  "bigFirst (c # cs) = (if isWord c then toUpperCase c # cs else c # cs)"
| "bigFirst [] = []"

definition newKey :: "bool \<Rightarrow> string \<Rightarrow> string" where
  "newKey big key = (if big then bigFirst (camelKey key) else camelKey key)"

subsection \<open>The copying revision (src/helper.js)\<close>

text \<open>
  \<^verbatim>\<open>for (const key in obj)\<close> of an array enumerates its indices as decimal strings.
  The function reads \<open>obj\<close> and writes a fresh \<open>newObj\<close> only; nested values are
  stored as they are.
\<close>

definition ownProps :: "json \<Rightarrow> props" where
  "ownProps obj = (case obj of
       JObj kvs \<Rightarrow> kvs
     | JArr xs \<Rightarrow> zip (map showNat [0..<length xs]) xs
     | _ \<Rightarrow> [])"

definition toCamelCase_old :: "json \<Rightarrow> bool \<Rightarrow> json" where
  "toCamelCase_old obj big =
     (if \<not> isObject obj then obj
      else JObj (foldl (\<lambda>newObj key.
                   case getProp (ownProps obj) key of
                     None \<Rightarrow> newObj
                   | Some v \<Rightarrow> setProp newObj (newKey big key) v)
                 [] (map fst (ownProps obj))))"

subsection \<open>The recursive, in-place revision (src/unnamed/part_001)\<close>

text \<open>
  The loop body of \<^verbatim>\<open>for (const key in obj)\<close>, on the object being rewritten. The
  names to visit are those the object had when the loop began; a name deleted
  before its turn is skipped, a name added during the loop is not visited (the
  enumeration of Node's engine). \<open>rec\<close> is the recursive call
  \<^verbatim>\<open>toCamelCase(obj[key])\<close>, which may run out of stack.
\<close>

fun forIn_new :: "(json \<Rightarrow> json option) \<Rightarrow> bool \<Rightarrow> string list \<Rightarrow> props \<Rightarrow> props option" where
  "forIn_new rec big [] obj = Some obj"
| "forIn_new rec big (key # keys) obj =
     (case getProp obj key of
        None \<Rightarrow> forIn_new rec big keys obj
      | Some v \<Rightarrow>
          (case (if isObject v then rec v else Some v) of
             None \<Rightarrow> None
           | Some v' \<Rightarrow>
               let obj1 = (if isObject v then setProp obj key v' else obj);
                   nk = newKey big key;
                   obj2 = (if nk \<noteq> key then deleteProp (setProp obj1 nk v') key else obj1)
               in forIn_new rec big keys obj2))"

text \<open>
  The first argument bounds the depth of the calls; \<open>None\<close> is the bound reached.
  The nested calls pass no \<open>big\<close>, so they run with the default \<open>false\<close>.
\<close>

fun toCamelCase_fuel :: "nat \<Rightarrow> json \<Rightarrow> bool \<Rightarrow> json option" where
  "toCamelCase_fuel 0 obj big = None"
| "toCamelCase_fuel (Suc n) (JArr xs) big =
     map_option JArr (those (map (\<lambda>item. toCamelCase_fuel n item False) xs))"
| "toCamelCase_fuel (Suc n) (JObj kvs) big =
     map_option JObj (forIn_new (\<lambda>v. toCamelCase_fuel n v False) big (map fst kvs) kvs)"
| "toCamelCase_fuel (Suc n) v big = Some v"

definition toCamelCase_new :: "json \<Rightarrow> bool \<Rightarrow> json option" where
  "toCamelCase_new obj big = toCamelCase_fuel (Suc (depth obj)) obj big"


subsection \<open>Shapes of property names\<close>





section \<open>Conversions of the language\<close>

text \<open>Truthiness, as in \<^verbatim>\<open>if (data.data)\<close> and \<^verbatim>\<open>!data.cmdId\<close>.\<close>

fun truthy :: "json \<Rightarrow> bool" where
  "truthy JUndef = False"
| "truthy JNull = False"
| "truthy (JBool b) = b"
| "truthy (JNum n) = (n \<noteq> 0)"
| "truthy (JStr s) = (s \<noteq> [])"
| "truthy (JArr xs) = True"
| "truthy (JObj kvs) = True"

text \<open>
  \<^verbatim>\<open>x.name\<close> for \<open>x\<close> other than \<^verbatim>\<open>null\<close> and \<^verbatim>\<open>undefined\<close>, and for the names the router
  reads (none of them is a property of arrays, strings, numbers or booleans): a
  missing property reads as \<^verbatim>\<open>undefined\<close>.
\<close>

fun getMember :: "json \<Rightarrow> string \<Rightarrow> json" where
  "getMember (JObj kvs) name = (case getProp kvs name of None \<Rightarrow> JUndef | Some v \<Rightarrow> v)"
| "getMember v name = JUndef"

text \<open>\<^verbatim>\<open>x.name = v\<close> on a plain object.\<close>

fun setMember :: "json \<Rightarrow> string \<Rightarrow> json \<Rightarrow> json" where
  "setMember (JObj kvs) name v = JObj (setProp kvs name v)"
| "setMember x name v = x"

text \<open>\<^verbatim>\<open>x === null || x === undefined\<close>: reading a property of such a value throws.\<close>

fun nullish :: "json \<Rightarrow> bool" where
  "nullish JUndef = True"
| "nullish JNull = True"
| "nullish v = False"

fun joinComma :: "string list \<Rightarrow> string" where
  "joinComma [] = []"
| "joinComma [s] = s"
| "joinComma (s # t # ss) = s @ '','' @ joinComma (t # ss)"

text \<open>String conversion, as in \<^verbatim>\<open>'RET#' + data.cmdId\<close>.\<close>

fun toStr :: "json \<Rightarrow> string" where
  "toStr JUndef = ''undefined''"
| "toStr JNull = ''null''"
| "toStr (JBool b) = (if b then ''true'' else ''false'')"
| "toStr (JNum n) = showInt n"
| "toStr (JStr s) = s"
| "toStr (JArr xs) = joinComma (map (\<lambda>x. if nullish x then [] else toStr x) xs)"
| "toStr (JObj kvs) = ''[object Object]''"

section \<open>Emitter, pending commands and timers (index.js)\<close>

datatype 'a promise = Pending | Fulfilled 'a | Rejected string

datatype 'a outcome = Returned 'a | Thrown string

text \<open>An argument of an event: a value, or \<^verbatim>\<open>new Error(message)\<close>.\<close>

datatype arg = V json | Error string

type_synonym event = "string \<times> arg list"

text \<open>
  One call of \<^verbatim>\<open>asyncSend\<close>: the promise of \<^verbatim>\<open>getCmdRecv\<close>, the promise of \<^verbatim>\<open>_send\<close> and the
  promise handed to the caller; \<open>cmd\<close> is set when the call came through \<^verbatim>\<open>sendCmd\<close>.
\<close>

record waiter =
  cmd :: "string option"
  recv :: "json promise"
  sent :: "bool promise"
  caller :: "json promise"

text \<open>
  The instance: the clock in milliseconds, the event names the application
  listens to, the one-shot listeners of \<^verbatim>\<open>getCmdRecv\<close> (the command id \<open>id\<close> of the event
  \<^verbatim>\<open>'RET#' + id\<close>, and the waiter), the timers of \<^verbatim>\<open>setTimeout\<close> (due time, delay,
  command id, waiter), the waiters, and the rejections no handler was attached to.
\<close>

record timer =
  due :: nat
  delay :: nat
  cmdId :: string
  who :: nat

record padchat =
  now :: nat
  userOn :: "string list"
  onceRet :: "(string \<times> nat) list"
  timers :: "timer list"
  waiters :: "waiter list"
  unhandled :: "string list"

definition hasListeners :: "padchat \<Rightarrow> string \<Rightarrow> bool" where
  "hasListeners s name \<longleftrightarrow>
     name \<in> set (userOn s) \<or> name \<in> set (map (\<lambda>l. ''RET#'' @ fst l) (onceRet s))"

text \<open>
  The one-shot listener of \<^verbatim>\<open>getCmdRecv\<close> with what hangs on its promise:
  \<^verbatim>\<open>clearTimeout(timeOutHandle); res(data)\<close>, then \<^verbatim>\<open>res(data.data)\<close> of \<^verbatim>\<open>asyncSend\<close>,
  then \<^verbatim>\<open>this.emit('cmdRet', cmd, ret)\<close> of \<^verbatim>\<open>sendCmd\<close>.
\<close>

definition onReply :: "nat \<Rightarrow> json \<Rightarrow> padchat \<Rightarrow> event list \<times> padchat" where
  "onReply wid data s =
     (let s1 = s\<lparr>timers := filter (\<lambda>t. who t \<noteq> wid) (timers s)\<rparr>
      in if wid < length (waiters s) \<and> recv (waiters s ! wid) = Pending
         then let w = waiters s ! wid;
                  ret = getMember data ''data'';
                  w' = w\<lparr>recv := Fulfilled data,
                         caller := (if caller w = Pending then Fulfilled ret else caller w)\<rparr>
              in ((case cmd w of Some c \<Rightarrow> [(''cmdRet'', [V (JStr c), V ret])] | None \<Rightarrow> []),
                  s1\<lparr>waiters := (waiters s)[wid := w']\<rparr>)
         else ([], s1))"

fun runOnce :: "(string \<times> nat) list \<Rightarrow> json \<Rightarrow> padchat \<Rightarrow> event list \<times> padchat" where
  "runOnce [] data s = ([], s)"
| "runOnce ((name, wid) # ls) data s =
     (let (ev, s1) = onReply wid data s;
          (ev', s2) = runOnce ls data s1
      in (ev @ ev', s2))"

text \<open>
  \<^verbatim>\<open>this.emit(name, ...args)\<close> of Node's emitter, which the class extends: an
  \<^verbatim>\<open>'error'\<close> event nobody listens to is thrown; otherwise the listeners run, the
  one-shot ones after being removed, and the result tells whether there was any.
  The listeners of the application are taken to return without throwing. The
  events are listed in the order of the calls.
\<close>

definition emit :: "padchat \<Rightarrow> string \<Rightarrow> arg list \<Rightarrow> event list \<times> bool outcome \<times> padchat" where
  "emit s name args =
     (if name = ''error'' \<and> \<not> hasListeners s name
      then ([], Thrown (case args of Error m # _ \<Rightarrow> m | _ \<Rightarrow> ''Unhandled error''), s)
      else let mine = filter (\<lambda>l. ''RET#'' @ fst l = name) (onceRet s);
               s1 = s\<lparr>onceRet := filter (\<lambda>l. ''RET#'' @ fst l \<noteq> name) (onceRet s)\<rparr>;
               (ev, s2) = runOnce mine (case args of V d # _ \<Rightarrow> d | _ \<Rightarrow> JUndef) s1
           in ((name, args) # ev, Returned (hasListeners s name), s2))"

text \<open>
  \<^verbatim>\<open>getCmdRecv(cmdId, timeout)\<close>, for the waiter \<open>wid\<close> whose promise it returns: without a
  command id the \<^verbatim>\<open>async\<close> function throws, that is, its promise is rejected; else it
  sets the timer, \<^verbatim>\<open>timeout * 1000\<close> milliseconds ahead, and the one-shot listener of
  \<^verbatim>\<open>'RET#' + cmdId\<close>.
\<close>

definition getCmdRecv :: "nat \<Rightarrow> json \<Rightarrow> nat \<Rightarrow> padchat \<Rightarrow> padchat" where
  "getCmdRecv wid cid timeout s =
     (if \<not> truthy cid
      then s\<lparr>waiters := (waiters s)[wid := (waiters s ! wid)\<lparr>recv := Rejected ''cmdId not given''\<rparr>],
             unhandled := unhandled s @ [''cmdId not given'']\<rparr>
      else s\<lparr>timers := timers s @ [\<lparr>due = now s + timeout * 1000, delay = timeout * 1000,
                                     cmdId = toStr cid, who = wid\<rparr>],
             onceRet := onceRet s @ [(toStr cid, wid)]\<rparr>)"

text \<open>
  \<^verbatim>\<open>asyncSend(data, timeout)\<close>, up to the call of \<^verbatim>\<open>_send\<close>, whose outcome comes later
  (\<open>sendDone\<close> below). \<open>uuid\<close> is what \<^verbatim>\<open>UUID.v1()\<close> returns. The result is the new waiter,
  the envelope handed to the socket, and the instance. On the promise of
  \<^verbatim>\<open>getCmdRecv\<close> hangs \<^verbatim>\<open>then(data => res(data.data))\<close>, on the promise of \<^verbatim>\<open>_send\<close> hangs
  \<^verbatim>\<open>then(async ret => ret)\<close>; neither has a rejection handler, and nothing calls \<^verbatim>\<open>rej\<close>
  (the \<^verbatim>\<open>catch\<close> block sees synchronous exceptions only, and both calls are \<^verbatim>\<open>async\<close>).
\<close>

definition asyncSend :: "string \<Rightarrow> string option \<Rightarrow> json \<Rightarrow> nat \<Rightarrow> padchat \<Rightarrow> nat \<times> json \<times> padchat" where
  "asyncSend uuid c data timeout s =
     (let data1 = (if \<not> truthy (getMember data ''cmdId'')
                   then setMember data ''cmdId'' (JStr uuid) else data);
          wid = length (waiters s);
          s1 = s\<lparr>waiters := waiters s @
                     [\<lparr>cmd = c, recv = Pending, sent = Pending, caller = Pending\<rparr>]\<rparr>
      in (wid, data1, getCmdRecv wid (getMember data1 ''cmdId'') timeout s1))"

text \<open>
  The timer callback of \<^verbatim>\<open>getCmdRecv\<close>:
  \<^verbatim>\<open>this.removeAllListeners(cmdId); rej(new Error(...))\<close>. The rejection reaches the
  promise of \<^verbatim>\<open>getCmdRecv\<close> and the promise \<^verbatim>\<open>then\<close> derived from it; no handler is there.
\<close>

definition timeoutMessage :: "nat \<Rightarrow> string" where
  "timeoutMessage ms = ''timed out waiting for the result of the command, timeout: '' @ showNat ms"

definition onTimeout :: "timer \<Rightarrow> padchat \<Rightarrow> padchat" where
  "onTimeout t s =
     (let s1 = s\<lparr>onceRet := filter (\<lambda>l. fst l \<noteq> cmdId t) (onceRet s),
                 userOn := filter (\<lambda>n. n \<noteq> ''RET#'' @ cmdId t) (userOn s)\<rparr>
      in if who t < length (waiters s) \<and> recv (waiters s ! who t) = Pending
         then s1\<lparr>waiters := (waiters s)[who t := (waiters s ! who t)
                                 \<lparr>recv := Rejected (timeoutMessage (delay t))\<rparr>],
                 unhandled := unhandled s @ [timeoutMessage (delay t)]\<rparr>
         else s1)"

text \<open>The clock moves on by \<open>d\<close> milliseconds; the timers due by then fire, earliest first.\<close>

definition advance :: "nat \<Rightarrow> padchat \<Rightarrow> padchat" where
  "advance d s =
     (let t = now s + d;
          fired = sort_key due (filter (\<lambda>x. due x \<le> t) (timers s));
          s1 = s\<lparr>now := t, timers := filter (\<lambda>x. \<not> due x \<le> t) (timers s)\<rparr>
      in foldl (\<lambda>s' x. onTimeout x s') s1 fired)"

text \<open>
  \<^verbatim>\<open>_send\<close>: the callback of \<^verbatim>\<open>this.ws.send\<close>, with the error the socket reports, if any,
  rejects or resolves the promise of \<^verbatim>\<open>_send\<close>. \<^verbatim>\<open>asyncSend\<close> attached no rejection handler
  to it.
\<close>

definition sendDone :: "nat \<Rightarrow> string option \<Rightarrow> padchat \<Rightarrow> padchat" where
  "sendDone wid e s =
     (if wid < length (waiters s) \<and> sent (waiters s ! wid) = Pending
      then (case e of
              None \<Rightarrow> s\<lparr>waiters := (waiters s)[wid := (waiters s ! wid)\<lparr>sent := Fulfilled True\<rparr>]\<rparr>
            | Some m \<Rightarrow>
                s\<lparr>waiters := (waiters s)[wid := (waiters s ! wid)
                                \<lparr>sent := Rejected (''ws failed to send the data! err: '' @ m)\<rparr>],
                  unhandled := unhandled s @ [''ws failed to send the data! err: '' @ m]\<rparr>)
      else s)"

section \<open>Outgoing commands (index.js)\<close>

text \<open>\<^verbatim>\<open>clearRawMsg\<close>: \<^verbatim>\<open>typeof obj === 'object'\<close> holds of plain objects, arrays and
  \<^verbatim>\<open>null\<close>; the result is the argument itself, after the deletion.\<close>

fun clearRawMsg :: "json \<Rightarrow> json outcome" where
  "clearRawMsg (JObj kvs) = Returned (JObj (deleteProp kvs ''data''))"
| "clearRawMsg (JArr xs) = Returned (JArr xs)"
| "clearRawMsg JNull = Thrown ''TypeError: Cannot convert undefined or null to object''"
| "clearRawMsg v = Returned v"

definition isUpper :: "char \<Rightarrow> bool" where
  "isUpper c = (let n = of_char c :: nat in 65 \<le> n \<and> n \<le> 90)"

definition toLowerCase :: "char \<Rightarrow> char" where
  "toLowerCase c = (let n = of_char c :: nat in
     if 65 \<le> n \<and> n \<le> 90 then char_of (n + 32) else c)"

text \<open>\<^verbatim>\<open>key.replace(/([A-Z])/g, (match, val, offset) => (offset ? '_' : '') + val)\<close>,
  from offset \<open>i\<close> on.\<close>

fun underFrom :: "nat \<Rightarrow> string \<Rightarrow> string" where
  "underFrom i [] = []"
| "underFrom i (c # cs) =
     (if isUpper c then (if i \<noteq> 0 then ''_'' else []) @ [c] else [c]) @ underFrom (Suc i) cs"

definition underKey :: "string \<Rightarrow> string" where
  "underKey key = map toLowerCase (underFrom 0 key)"

text \<open>\<^verbatim>\<open>toUnderLine\<close> (helper.js, the same in both revisions): a fresh object. The
  letters that \<^verbatim>\<open>toLowerCase\<close> moves are taken to be the ASCII ones.\<close>

definition toUnderLine :: "json \<Rightarrow> json" where
  "toUnderLine obj =
     (if \<not> isObject obj then obj
      else JObj (foldl (\<lambda>newObj key.
                   case getProp (ownProps obj) key of
                     None \<Rightarrow> newObj
                   | Some v \<Rightarrow> setProp newObj (underKey key) v)
                 [] (map fst (ownProps obj))))"

text \<open>
  What \<^verbatim>\<open>sendCmd(cmd, data)\<close> leaves: the waiter of the returned promise, the
  envelope handed to the socket, the caller's \<open>data\<close> object after the call, the
  object that \<^verbatim>\<open>data.rawMsgData\<close> referred to when the call began, after the call
  (\<^verbatim>\<open>undefined\<close> when there was none), and the instance.
\<close>

record sent_cmd =
  future :: nat
  envelope :: json
  dataAfter :: json
  rawMsgAfter :: json
  inst :: padchat

text \<open>
  \<^verbatim>\<open>sendCmd\<close> of the later revision (index.js, line 126). \<open>data\<close> is \<^verbatim>\<open>undefined\<close> when the
  caller passes none. A thrown outcome is the rejection of the promise the
  \<^verbatim>\<open>async\<close> function returns.
\<close>

definition sendCmd_new :: "string \<Rightarrow> string \<Rightarrow> json \<Rightarrow> padchat \<Rightarrow> sent_cmd outcome" where
  "sendCmd_new uuid c data s =
     (let data0 = (if data = JUndef then JObj [] else data)
      in if nullish data0 then Thrown ''TypeError: Cannot read property rawMsgData''
         else if truthy (getMember data0 ''rawMsgData'')
         then (case clearRawMsg (getMember data0 ''rawMsgData'') of
                 Thrown e \<Rightarrow> Thrown e
               | Returned raw1 \<Rightarrow>
                   let data1 = setMember data0 ''rawMsgData'' (toUnderLine raw1);
                       (wid, env, s') = asyncSend uuid (Some c)
                          (JObj [(''type'', JStr ''user''), (''cmd'', JStr c), (''data'', data1)]) 30000 s
                   in Returned \<lparr>future = wid, envelope = env, dataAfter = data1,
                                 rawMsgAfter = raw1, inst = s'\<rparr>)
         else let (wid, env, s') = asyncSend uuid (Some c)
                          (JObj [(''type'', JStr ''user''), (''cmd'', JStr c), (''data'', data0)]) 30000 s
              in Returned \<lparr>future = wid, envelope = env, dataAfter = data0,
                            rawMsgAfter = JUndef, inst = s'\<rparr>)"

text \<open>
  \<^verbatim>\<open>sendCmd\<close> of the earlier revision (index.js, line 1889): the result of
  \<^verbatim>\<open>Helper.toUnderLine(data.rawMsgData)\<close> is dropped.
\<close>

definition sendCmd_old :: "string \<Rightarrow> string \<Rightarrow> json \<Rightarrow> padchat \<Rightarrow> sent_cmd outcome" where
  "sendCmd_old uuid c data s =
     (let data0 = (if data = JUndef then JObj [] else data)
      in if nullish data0 then Thrown ''TypeError: Cannot read property rawMsgData''
         else if truthy (getMember data0 ''rawMsgData'')
         then (case clearRawMsg (getMember data0 ''rawMsgData'') of
                 Thrown e \<Rightarrow> Thrown e
               | Returned raw1 \<Rightarrow>
                   let data1 = setMember data0 ''rawMsgData'' raw1;
                       (wid, env, s') = asyncSend uuid (Some c)
                          (JObj [(''type'', JStr ''user''), (''cmd'', JStr c), (''data'', data1)]) 30000 s
                   in Returned \<lparr>future = wid, envelope = env, dataAfter = data1,
                                 rawMsgAfter = raw1, inst = s'\<rparr>)
         else let (wid, env, s') = asyncSend uuid (Some c)
                          (JObj [(''type'', JStr ''user''), (''cmd'', JStr c), (''data'', data0)]) 30000 s
              in Returned \<lparr>future = wid, envelope = env, dataAfter = data0,
                            rawMsgAfter = JUndef, inst = s'\<rparr>)"

section \<open>Incoming frames (index.js, onWsMsg)\<close>

text \<open>
  A frame of the socket is a string or not (\<^verbatim>\<open>typeof msg === 'string'\<close>). \<^verbatim>\<open>JSON.parse\<close> is
  a parameter of the router: it gives the value, or the message of the
  \<^verbatim>\<open>SyntaxError\<close>. The texts of the errors are rendered in English.

  The file holds two revisions of the router. The later one (from line 1642)
  reads \<open>msgType\<close> and \<open>subType\<close> of the push items, names that only the recursive
  \<^verbatim>\<open>toCamelCase\<close> gives them, so it runs with that revision of the helper; the earlier
  one (from line 2887) normalises one level at a time and reads \<open>msg_type\<close> and
  \<open>sub_type\<close>, so it runs with the copying revision.
\<close>

datatype wsmsg = Text string | Binary

type_synonym parser = "string \<Rightarrow> string + json"

type_synonym 'a step = "event list \<times> 'a outcome \<times> padchat"

text \<open>The branch \<^verbatim>\<open>case 'cmdRet'\<close>, the same in both revisions.\<close>

definition cmdRet :: "padchat \<Rightarrow> json \<Rightarrow> unit step" where
  "cmdRet s data =
     (if truthy (getMember data ''cmdId'')
      then (case emit s (''RET#'' @ toStr (getMember data ''cmdId'')) [V data] of
              (ev, Thrown e, s1) \<Rightarrow> (ev, Thrown e, s1)
            | (ev, Returned hasOn, s1) \<Rightarrow>
                if \<not> hasOn
                then (case emit s1 ''warn''
                             [Error (''the returned result is not listened to! command id: ''
                                     @ toStr (getMember data ''cmdId''))] of
                        (ev', Thrown e, s2) \<Rightarrow> (ev @ ev', Thrown e, s2)
                      | (ev', Returned _, s2) \<Rightarrow> (ev @ ev', Returned (), s2))
                else (ev, Returned (), s1))
      else ([], Returned (), s))"

text \<open>The account events \<^verbatim>\<open>qrcode\<close>, \<^verbatim>\<open>scan\<close>, \<^verbatim>\<open>login\<close>, \<^verbatim>\<open>loaded\<close>, \<^verbatim>\<open>logout\<close>, \<^verbatim>\<open>over\<close>, \<^verbatim>\<open>sns\<close>:
  \<^verbatim>\<open>this.emit(data.event, data.data || {}, data.msg)\<close>.\<close>

definition lifecycle :: "string list" where
  "lifecycle = [''qrcode'', ''scan'', ''login'', ''loaded'', ''logout'', ''over'', ''sns'']"

definition forward :: "padchat \<Rightarrow> string \<Rightarrow> arg list \<Rightarrow> unit step" where
  "forward s name args =
     (case emit s name args of
        (ev, Thrown e, s1) \<Rightarrow> (ev, Thrown e, s1)
      | (ev, Returned _, s1) \<Rightarrow> (ev, Returned (), s1))"

text \<open>\<^verbatim>\<open>!data.data || !Array.isArray(data.data.list) || data.data.list.length <= 0\<close>.\<close>

definition noItems :: "json \<Rightarrow> bool" where
  "noItems list = (case list of JArr xs \<Rightarrow> length xs \<le> 0 | _ \<Rightarrow> True)"

definition badPush :: "json \<Rightarrow> bool" where
  "badPush data \<longleftrightarrow>
     \<not> truthy (getMember data ''data'') \<or> noItems (getMember (getMember data ''data'') ''list'')"

definition pushList :: "json \<Rightarrow> json list" where
  "pushList data = (case getMember (getMember data ''data'') ''list'' of JArr xs \<Rightarrow> xs | _ \<Rightarrow> [])"

text \<open>The effective type the loops store in \<^verbatim>\<open>item.mType\<close>, by the names of the two revisions.\<close>

definition mType_new :: "json \<Rightarrow> json" where
  "mType_new item = (if getMember item ''msgType'' = JNum 5 then getMember item ''subType''
                     else getMember item ''msgType'')"

definition mType_old :: "json \<Rightarrow> json" where
  "mType_old item = (if getMember item ''msg_type'' = JNum 5 then getMember item ''sub_type''
                     else getMember item ''msg_type'')"

text \<open>
  The body of \<^verbatim>\<open>data.data.list.forEach\<close> in the later revision (line 1730), one item
  after the other; an exception ends the loop.
\<close>

definition dropped :: "json \<Rightarrow> bool" where
  "dropped type \<longleftrightarrow> type = JUndef \<or> type = JNum 2048 \<or> type = JNum 32768"

fun forEach_new :: "padchat \<Rightarrow> json list \<Rightarrow> unit step" where
  "forEach_new s [] = ([], Returned (), s)"
| "forEach_new s (item # items) =
     (if nullish item then ([], Thrown ''TypeError: Cannot read property msgType'', s)
      else if dropped (getMember item ''msgType'') then forEach_new s items
      else (case emit s ''push''
                   [V (setMember item ''mType'' (mType_new item))] of
              (ev, Thrown e, s1) \<Rightarrow> (ev, Thrown e, s1)
            | (ev, Returned _, s1) \<Rightarrow>
                (case forEach_new s1 items of (ev', r, s2) \<Rightarrow> (ev @ ev', r, s2))))"

text \<open>The same loop in the earlier revision (line 2965).\<close>

fun forEach_old :: "padchat \<Rightarrow> json list \<Rightarrow> unit step" where
  "forEach_old s [] = ([], Returned (), s)"
| "forEach_old s (item # items) =
     (if nullish item then ([], Thrown ''TypeError: Cannot read property msg_type'', s)
      else if dropped (getMember item ''msg_type'') then forEach_old s items
      else (case emit s ''push''
                   [V (toCamelCase_old (setMember item ''mType'' (mType_old item)) False)] of
              (ev, Thrown e, s1) \<Rightarrow> (ev, Thrown e, s1)
            | (ev, Returned _, s1) \<Rightarrow>
                (case forEach_old s1 items of (ev', r, s2) \<Rightarrow> (ev @ ev', r, s2))))"

text \<open>
  The \<^verbatim>\<open>switch\<close> on \<^verbatim>\<open>data.type\<close> and \<^verbatim>\<open>data.event\<close>. The two revisions differ in the
  loop over the push items and in the field read for the text of a \<^verbatim>\<open>warn\<close> event
  (\<^verbatim>\<open>data.error\<close>, earlier \<^verbatim>\<open>data.msg\<close>).
\<close>

definition route :: "(padchat \<Rightarrow> json list \<Rightarrow> unit step) \<Rightarrow> string \<Rightarrow> padchat \<Rightarrow> json \<Rightarrow> unit step" where
  "route forEach warnField s data =
     (if getMember data ''type'' = JStr ''cmdRet'' then cmdRet s data
      else if getMember data ''type'' = JStr ''userEvent'' then
        (if getMember data ''event'' = JStr ''warn''
         then forward s ''warn''
                [Error (''the server returned an error message: '' @ toStr (getMember data warnField)),
                 V (getMember data ''success'')]
         else if getMember data ''event'' \<in> JStr ` set lifecycle
         then forward s (toStr (getMember data ''event''))
                [V (if truthy (getMember data ''data'') then getMember data ''data'' else JObj []),
                 V (getMember data ''msg'')]
         else if getMember data ''event'' = JStr ''push''
         then (if badPush data then forward s ''error'' [Error ''abnormal push data!'']
               else forEach s (pushList data))
         else forward s ''other'' [V data])
      else forward s ''other'' [V data])"

text \<open>The part of \<^verbatim>\<open>onWsMsg\<close> after the frame is decoded, from \<^verbatim>\<open>this.emit('msg', data)\<close> on.\<close>

definition afterDecode :: "(padchat \<Rightarrow> json list \<Rightarrow> unit step) \<Rightarrow> string \<Rightarrow> padchat \<Rightarrow> json \<Rightarrow> unit step" where
  "afterDecode forEach warnField s data =
     (case emit s ''msg'' [V data] of
        (ev, Thrown e, s1) \<Rightarrow> (ev, Thrown e, s1)
      | (ev, Returned _, s1) \<Rightarrow>
          (case route forEach warnField s1 data of (ev', r, s2) \<Rightarrow> (ev @ ev', r, s2)))"

text \<open>The \<^verbatim>\<open>try\<close> block: the decoded value, or the text of the \<^verbatim>\<open>'error'\<close> event of the
  \<^verbatim>\<open>catch\<close> block.\<close>

definition decode :: "parser \<Rightarrow> wsmsg \<Rightarrow> string + json" where
  "decode parse msg =
     (case msg of
        Binary \<Rightarrow> Inl ''the data sent over ws is not a string!''
      | Text t \<Rightarrow> parse t)"

text \<open>
  \<^verbatim>\<open>if (data.data) { data.data = Helper.toCamelCase(data.data) }\<close> of the later revision
  (line 1656), on a frame other than \<^verbatim>\<open>null\<close>; \<open>None\<close> is the call stack exhausted.
\<close>

definition normalize_new :: "json \<Rightarrow> json option" where
  "normalize_new data =
     (if truthy (getMember data ''data'')
      then map_option (setMember data ''data'') (toCamelCase_new (getMember data ''data'') False)
      else Some data)"

text \<open>
  The same step of the earlier revision (line 2901), which goes on with
  \<^verbatim>\<open>if (data.data.data) { data.data.data = Helper.toCamelCase(data.data.data || {}) }\<close>.
\<close>

definition normalize_old :: "json \<Rightarrow> json" where
  "normalize_old data =
     (if truthy (getMember data ''data'')
      then (let d = toCamelCase_old (getMember data ''data'') False
            in setMember data ''data''
                 (if truthy (getMember d ''data'')
                  then setMember d ''data'' (toCamelCase_old (getMember d ''data'') False)
                  else d))
      else data)"

text \<open>\<^verbatim>\<open>onWsMsg\<close> of the later revision (line 1642). Reading \<^verbatim>\<open>data.data\<close> of \<^verbatim>\<open>null\<close> throws.\<close>

definition onWsMsg_new :: "parser \<Rightarrow> padchat \<Rightarrow> wsmsg \<Rightarrow> unit step" where
  "onWsMsg_new parse s msg =
     (case decode parse msg of
        Inl e \<Rightarrow> forward s ''error'' [Error (''failed to parse the msg data: '' @ e)]
      | Inr data \<Rightarrow>
          if nullish data then ([], Thrown ''TypeError: Cannot read property data'', s)
          else (case normalize_new data of
                  None \<Rightarrow> ([], Thrown ''RangeError: Maximum call stack size exceeded'', s)
                | Some data' \<Rightarrow> afterDecode forEach_new ''error'' s data'))"

text \<open>\<^verbatim>\<open>onWsMsg\<close> of the earlier revision (line 2887).\<close>

definition onWsMsg_old :: "parser \<Rightarrow> padchat \<Rightarrow> wsmsg \<Rightarrow> unit step" where
  "onWsMsg_old parse s msg =
     (case decode parse msg of
        Inl e \<Rightarrow> forward s ''error'' [Error (''failed to parse the msg data: '' @ e)]
      | Inr data \<Rightarrow>
          if nullish data then ([], Thrown ''TypeError: Cannot read property data'', s)
          else afterDecode forEach_old ''msg'' s (normalize_old data))"

text \<open>A fresh instance, with the events the application listens to.\<close>

definition start :: "string list \<Rightarrow> padchat" where
  "start names = \<lparr>now = 0, userOn = names, onceRet = [], timers = [], waiters = [], unhandled = []\<rparr>"

section \<open>Properties of the key casing\<close>

subsection \<open>Property names\<close>










subsection \<open>Property lists\<close>









lemma setProp_mem: "(key, v) \<in> set (setProp obj key v)"
  by (induction obj key v rule: setProp.induct) auto

lemma setProp_other:
  "kv \<in> set obj \<Longrightarrow> fst kv \<noteq> key \<Longrightarrow> kv \<in> set (setProp obj key v)"
  by (induction obj key v rule: setProp.induct) auto








lemma not_isObject_depth: "\<not> isObject v \<Longrightarrow> depth v = 0"
  by (cases v) auto


subsection \<open>The loop of the in-place revision\<close>






subsection \<open>Call depth\<close>



lemma depth_JArr_0: "\<not> depth (JArr xs) \<le> 0" by simp
lemma depth_JObj_0: "\<not> depth (JObj kvs) \<le> 0" by simp
















subsection \<open>The copying revision\<close>








subsection \<open>Commands and timers\<close>

lemma getProp_setProp: "getProp (setProp obj k v) k' = (if k' = k then Some v else getProp obj k')"
  by (induction obj k v rule: setProp.induct) (auto simp: getProp_def)

lemma getProp_deleteProp: "getProp (deleteProp obj k) k' = (if k' = k then None else getProp obj k')"
  by (induction obj) (auto simp: getProp_def deleteProp_def)

lemma getMember_JObj_cases: "getMember x name = JObj kvs \<Longrightarrow> \<exists>props. x = JObj props"
  by (cases x) auto

lemma getMember_setMember:
  "getMember (setMember (JObj kvs) k v) k' = (if k' = k then v else getMember (JObj kvs) k')"
  by (simp add: getProp_setProp)

lemma getMember_Cons:
  "getMember (JObj ((k, v) # kvs)) k' = (if k' = k then v else getMember (JObj kvs) k')"
  by (simp add: getProp_def)

lemma getMember_Nil: "getMember (JObj []) k = JUndef"
  by (simp add: getProp_def)

lemma asyncSend_envelope:
  "getMember (fst (snd (asyncSend uuid c (JObj kvs) t s))) k =
     (if k = ''cmdId'' \<and> \<not> truthy (getMember (JObj kvs) ''cmdId'') then JStr uuid
      else getMember (JObj kvs) k)"
  by (simp add: asyncSend_def getCmdRecv_def Let_def getProp_setProp)

lemma onTimeout_callers: "map caller (waiters (onTimeout t s)) = map caller (waiters s)"
  by (simp add: onTimeout_def Let_def map_update) (simp add: list_update_same_conv)

lemma fold_onTimeout_callers:
  "map caller (waiters (foldl (\<lambda>s' x. onTimeout x s') s ts)) = map caller (waiters s)"
  by (induction ts arbitrary: s) (simp_all add: onTimeout_callers)

lemma advance_callers: "map caller (waiters (advance d s)) = map caller (waiters s)"
  by (simp add: advance_def Let_def fold_onTimeout_callers)

lemma caller_nth:
  assumes "map caller (waiters s') = map caller (waiters s)" and "w < length (waiters s)"
  shows "caller (waiters s' ! w) = caller (waiters s ! w)"
proof -
  from assms(1) have "length (waiters s') = length (waiters s)" by (metis length_map)
  with assms show ?thesis by (metis nth_map)
qed

lemma asyncSend_shape:
  "fst (asyncSend uuid c data t s) = length (waiters s) \<and>
   (\<exists>w. waiters (snd (snd (asyncSend uuid c data t s))) = waiters s @ [w] \<and>
        caller w = Pending \<and> sent w = Pending)"
  by (simp add: asyncSend_def getCmdRecv_def Let_def)

lemma asyncSend_caller_advance:
  "caller (waiters (advance d (snd (snd (asyncSend uuid c data t s)))) ! fst (asyncSend uuid c data t s))
     = Pending"
proof -
  obtain w where w: "waiters (snd (snd (asyncSend uuid c data t s))) = waiters s @ [w]"
    "caller w = Pending" and f: "fst (asyncSend uuid c data t s) = length (waiters s)"
    using asyncSend_shape by blast
  have "caller (waiters (advance d (snd (snd (asyncSend uuid c data t s)))) ! length (waiters s))
        = caller (waiters (snd (snd (asyncSend uuid c data t s))) ! length (waiters s))"
    by (rule caller_nth [OF advance_callers]) (simp add: w)
  with w f show ?thesis by simp
qed

lemma asyncSend_sent:
  "fst (snd (asyncSend uuid c data t s)) =
     (if \<not> truthy (getMember data ''cmdId'') then setMember data ''cmdId'' (JStr uuid) else data)"
  by (simp add: asyncSend_def getCmdRecv_def Let_def)

lemma asyncSend_timer:
  assumes "truthy (getMember (fst (snd (asyncSend uuid c data t s))) ''cmdId'')"
  shows "timers (snd (snd (asyncSend uuid c data t s))) =
     timers s @ [\<lparr>due = now s + t * 1000, delay = t * 1000,
                  cmdId = toStr (getMember (fst (snd (asyncSend uuid c data t s))) ''cmdId''),
                  who = length (waiters s)\<rparr>]"
proof -
  define data1 where "data1 = (if \<not> truthy (getMember data ''cmdId'')
      then setMember data ''cmdId'' (JStr uuid) else data)"
  from assms have "truthy (getMember data1 ''cmdId'')"
    by (simp only: asyncSend_sent data1_def)
  then show ?thesis
    unfolding asyncSend_sent unfolding asyncSend_def getCmdRecv_def data1_def [symmetric] Let_def
    by simp
qed

lemma sendDone_failed:
  assumes "waiters s = ws @ [w]" "sent w = Pending" "caller w = Pending"
  shows "sent (waiters (sendDone (length ws) (Some m) s) ! length ws)
           = Rejected (''ws failed to send the data! err: '' @ m) \<and>
         caller (waiters (sendDone (length ws) (Some m) s) ! length ws) = Pending \<and>
         length (waiters (sendDone (length ws) (Some m) s)) = Suc (length ws)"
  using assms by (simp add: sendDone_def)

subsection \<open>The emitter and the router\<close>

lemma RET_name: "''RET#'' @ x = name \<Longrightarrow> take 4 name = ''RET#''"
  by auto

lemma emit_plain:
  assumes "take 4 name \<noteq> ''RET#''" and "name \<noteq> ''error'' \<or> name \<in> set (userOn s)"
  shows "emit s name args = ([(name, args)], Returned (name \<in> set (userOn s)), s)"
proof -
  have n: "\<And>x. ''RET#'' @ x \<noteq> name" using assms(1) RET_name by blast
  have h: "hasListeners s name = (name \<in> set (userOn s))"
    using n by (auto simp: hasListeners_def)
  show ?thesis using assms(2) by (auto simp: emit_def h n [simplified] Let_def)
qed


lemma forward_plain:
  assumes "take 4 name \<noteq> ''RET#''" and "name \<noteq> ''error'' \<or> name \<in> set (userOn s)"
  shows "forward s name args = ([(name, args)], Returned (), s)"
  by (simp add: forward_def emit_plain [OF assms])

lemma forward_error_unheard:
  assumes "''error'' \<notin> set (userOn s)"
  shows "forward s ''error'' [Error m] = ([], Thrown m, s)"
proof -
  have "\<not> hasListeners s ''error''" using assms by (auto simp: hasListeners_def)
  then show ?thesis by (simp add: forward_def emit_def)
qed






subsection \<open>The list of a push frame\<close>

















subsection \<open>The items of a push frame\<close>














subsection \<open>Mappings without colliding keys\<close>







section \<open>The claims\<close>

text \<open>
  C1. The promise \<^verbatim>\<open>asyncSend\<close> returns is never rejected by the timer: however far the
  clock moves on after the call, with no reply, it is still pending; and the
  timer of an envelope with a command id is set \<^verbatim>\<open>timeout * 1000\<close> milliseconds ahead.
\<close>

theorem asyncSend_timeout_leaves_caller_pending:
  "caller (waiters (advance d (snd (snd (asyncSend uuid c data timeout s))))
             ! fst (asyncSend uuid c data timeout s)) = Pending \<and>
   (truthy (getMember (fst (snd (asyncSend uuid c data timeout s))) ''cmdId'') \<longrightarrow>
      map due (timers (snd (snd (asyncSend uuid c data timeout s))))
        = map due (timers s) @ [now s + timeout * 1000])"
  by (simp add: asyncSend_caller_advance asyncSend_timer)

theorem asyncSend_timeout_leaves_caller_pending_witness:
  "truthy (getMember (fst (snd (asyncSend ''u1'' None
       (JObj [(''cmd'', JStr ''echo''), (''data'', JObj [(''a_b'', JNum 1)])]) 1000 (start [''error''])))) ''cmdId'') \<and>
   caller (waiters (advance 1050 (snd (snd (asyncSend ''u1'' None
       (JObj [(''cmd'', JStr ''echo''), (''data'', JObj [(''a_b'', JNum 1)])]) 1000 (start [''error'']))))) !
     fst (asyncSend ''u1'' None
       (JObj [(''cmd'', JStr ''echo''), (''data'', JObj [(''a_b'', JNum 1)])]) 1000 (start [''error'']))) = Pending \<and>
   map due (timers (snd (snd (asyncSend ''u1'' None
       (JObj [(''cmd'', JStr ''echo''), (''data'', JObj [(''a_b'', JNum 1)])]) 1000 (start [''error'']))))) = [1000000] \<and>
   onceRet (advance 1050 (snd (snd (asyncSend ''u1'' None
       (JObj [(''cmd'', JStr ''echo''), (''data'', JObj [(''a_b'', JNum 1)])]) 1000 (start [''error'']))))) = [(''u1'', 0)] \<and>
   advance 1000000 (snd (snd (asyncSend ''u1'' None
       (JObj [(''cmd'', JStr ''echo''), (''data'', JObj [(''a_b'', JNum 1)])]) 1000 (start [''error''])))) =
     \<lparr>now = 1000000, userOn = [''error''], onceRet = [], timers = [],
      waiters = [\<lparr>cmd = None, recv = Rejected (timeoutMessage 1000000), sent = Pending, caller = Pending\<rparr>],
      unhandled = [timeoutMessage 1000000]\<rparr>"
proof -
  let ?e = "JObj [(''cmd'', JStr ''echo''), (''data'', JObj [(''a_b'', JNum 1)])]"
  let ?X = "asyncSend ''u1'' None ?e 1000 (start [''error''])"
  have X: "?X = (0, JObj [(''cmd'', JStr ''echo''), (''data'', JObj [(''a_b'', JNum 1)]), (''cmdId'', JStr ''u1'')],
      \<lparr>now = 0, userOn = [''error''], onceRet = [(''u1'', 0)],
       timers = [\<lparr>due = 1000000, delay = 1000000, cmdId = ''u1'', who = 0\<rparr>],
       waiters = [\<lparr>cmd = None, recv = Pending, sent = Pending, caller = Pending\<rparr>], unhandled = []\<rparr>)"
    by (simp add: asyncSend_def getCmdRecv_def start_def Let_def getProp_def)
  have h: "truthy (getMember (fst (snd ?X)) ''cmdId'')"
    unfolding X by (simp add: getProp_def)
  note t = asyncSend_timeout_leaves_caller_pending [of 1050 "''u1''" None ?e 1000 "start [''error'']"]
  from t have c: "caller (waiters (advance 1050 (snd (snd ?X))) ! fst ?X) = Pending" by blast
  from t h have d: "map due (timers (snd (snd ?X))) = map due (timers (start [''error''])) @ [now (start [''error'']) + 1000 * 1000]"
    by blast
  have d': "map due (timers (snd (snd ?X))) = [1000000]"
    using d by (simp add: start_def)
  have o: "onceRet (advance 1050 (snd (snd ?X))) = [(''u1'', 0)]"
    unfolding X by (simp add: advance_def Let_def)
  have a: "advance 1000000 (snd (snd ?X)) =
     \<lparr>now = 1000000, userOn = [''error''], onceRet = [], timers = [],
      waiters = [\<lparr>cmd = None, recv = Rejected (timeoutMessage 1000000), sent = Pending, caller = Pending\<rparr>],
      unhandled = [timeoutMessage 1000000]\<rparr>"
    unfolding X by (simp add: advance_def onTimeout_def Let_def)
  from h c d' o a show ?thesis by blast
qed



text \<open>
  C3. When the socket reports that the envelope was not sent, the promise of
  \<^verbatim>\<open>_send\<close> is rejected and the promise \<^verbatim>\<open>asyncSend\<close> returned stays pending, then and at
  any later time.
\<close>

theorem sendDone_failure_leaves_caller_pending:
  "sent (waiters (sendDone (fst (asyncSend uuid c data timeout s)) (Some m)
                   (snd (snd (asyncSend uuid c data timeout s))))
          ! fst (asyncSend uuid c data timeout s))
     = Rejected (''ws failed to send the data! err: '' @ m) \<and>
   caller (waiters (advance d (sendDone (fst (asyncSend uuid c data timeout s)) (Some m)
                                (snd (snd (asyncSend uuid c data timeout s)))))
            ! fst (asyncSend uuid c data timeout s)) = Pending"
proof -
  let ?X = "asyncSend uuid c data timeout s"
  obtain w where w: "waiters (snd (snd ?X)) = waiters s @ [w]"
    "caller w = Pending" "sent w = Pending" and f: "fst ?X = length (waiters s)"
    using asyncSend_shape by blast
  note sd = sendDone_failed [OF w(1) w(3) w(2), of m]
  have "caller (waiters (advance d (sendDone (length (waiters s)) (Some m) (snd (snd ?X)))) ! length (waiters s))
        = caller (waiters (sendDone (length (waiters s)) (Some m) (snd (snd ?X))) ! length (waiters s))"
    by (rule caller_nth [OF advance_callers]) (simp add: sd)
  with sd f show ?thesis by simp
qed

theorem sendDone_failure_leaves_caller_pending_witness:
  "sendDone 0 (Some ''not opened'') (snd (snd (asyncSend ''u1'' None
       (JObj [(''cmd'', JStr ''echo''), (''data'', JObj [(''a_b'', JNum 1)])]) 1000 (start [''error''])))) =
     \<lparr>now = 0, userOn = [''error''], onceRet = [(''u1'', 0)],
      timers = [\<lparr>due = 1000000, delay = 1000000, cmdId = ''u1'', who = 0\<rparr>],
      waiters = [\<lparr>cmd = None, recv = Pending,
                  sent = Rejected ''ws failed to send the data! err: not opened'', caller = Pending\<rparr>],
      unhandled = [''ws failed to send the data! err: not opened'']\<rparr> \<and>
   caller (waiters (advance 1000000 (sendDone (fst (asyncSend ''u1'' None
       (JObj [(''cmd'', JStr ''echo''), (''data'', JObj [(''a_b'', JNum 1)])]) 1000 (start [''error'']))) (Some ''not opened'')
         (snd (snd (asyncSend ''u1'' None
       (JObj [(''cmd'', JStr ''echo''), (''data'', JObj [(''a_b'', JNum 1)])]) 1000 (start [''error''])))))) !
     fst (asyncSend ''u1'' None
       (JObj [(''cmd'', JStr ''echo''), (''data'', JObj [(''a_b'', JNum 1)])]) 1000 (start [''error'']))) = Pending"
proof -
  let ?e = "JObj [(''cmd'', JStr ''echo''), (''data'', JObj [(''a_b'', JNum 1)])]"
  let ?X = "asyncSend ''u1'' None ?e 1000 (start [''error''])"
  have X: "snd (snd ?X) =
      \<lparr>now = 0, userOn = [''error''], onceRet = [(''u1'', 0)],
       timers = [\<lparr>due = 1000000, delay = 1000000, cmdId = ''u1'', who = 0\<rparr>],
       waiters = [\<lparr>cmd = None, recv = Pending, sent = Pending, caller = Pending\<rparr>], unhandled = []\<rparr>"
    by (simp add: asyncSend_def getCmdRecv_def start_def Let_def getProp_def)
  have a: "sendDone 0 (Some ''not opened'') (snd (snd ?X)) =
     \<lparr>now = 0, userOn = [''error''], onceRet = [(''u1'', 0)],
      timers = [\<lparr>due = 1000000, delay = 1000000, cmdId = ''u1'', who = 0\<rparr>],
      waiters = [\<lparr>cmd = None, recv = Pending,
                  sent = Rejected ''ws failed to send the data! err: not opened'', caller = Pending\<rparr>],
      unhandled = [''ws failed to send the data! err: not opened'']\<rparr>"
    unfolding X by (simp add: sendDone_def)
  from sendDone_failure_leaves_caller_pending [of "''u1''" None ?e 1000 "start [''error'']" "''not opened''" 1000000]
  have "caller (waiters (advance 1000000 (sendDone (fst ?X) (Some ''not opened'') (snd (snd ?X)))) ! fst ?X) = Pending"
    by blast
  with a show ?thesis by blast
qed
















text \<open>
  C9 (amended). For every frame that is not a string or that \<^verbatim>\<open>JSON.parse\<close> rejects, on an
  instance whose application listens to \<^verbatim>\<open>'error'\<close>: the router emits one \<^verbatim>\<open>'error'\<close>
  event and no other, does not throw, and leaves the instance as it was, so that
  every later frame is routed as it would have been.
\<close>

theorem onWsMsg_decode_error:
  assumes "decode parse msg = Inl e" and "''error'' \<in> set (userOn s)"
  shows "onWsMsg_new parse s msg =
           ([(''error'', [Error (''failed to parse the msg data: '' @ e)])], Returned (), s) \<and>
         onWsMsg_old parse s msg =
           ([(''error'', [Error (''failed to parse the msg data: '' @ e)])], Returned (), s) \<and>
         onWsMsg_new parse (snd (snd (onWsMsg_new parse s msg))) next = onWsMsg_new parse s next \<and>
         onWsMsg_old parse (snd (snd (onWsMsg_old parse s msg))) next = onWsMsg_old parse s next"
proof -
  have "forward s ''error'' [Error (''failed to parse the msg data: '' @ e)] =
          ([(''error'', [Error (''failed to parse the msg data: '' @ e)])], Returned (), s)"
    using assms(2) by (intro forward_plain) simp_all
  then show ?thesis using assms(1) by (simp add: onWsMsg_new_def onWsMsg_old_def)
qed

theorem onWsMsg_decode_error_witness:
  "decode (\<lambda>t. if t = ''{}'' then Inr (JObj []) else Inl ''Unexpected token'') (Text ''oops'')
     = Inl ''Unexpected token'' \<and>
   ''error'' \<in> set (userOn (start [''error''])) \<and>
   onWsMsg_new (\<lambda>t. if t = ''{}'' then Inr (JObj []) else Inl ''Unexpected token'')
       (start [''error'']) (Text ''oops'')
     = ([(''error'', [Error ''failed to parse the msg data: Unexpected token''])], Returned (),
        start [''error'']) \<and>
   onWsMsg_new (\<lambda>t. if t = ''{}'' then Inr (JObj []) else Inl ''Unexpected token'')
       (snd (snd (onWsMsg_new (\<lambda>t. if t = ''{}'' then Inr (JObj []) else Inl ''Unexpected token'')
                    (start [''error'']) (Text ''oops''))))
       (Text ''{}'')
     = onWsMsg_new (\<lambda>t. if t = ''{}'' then Inr (JObj []) else Inl ''Unexpected token'')
         (start [''error'']) (Text ''{}'')"
proof -
  let ?p = "\<lambda>t. if t = ''{}'' then Inr (JObj []) else Inl ''Unexpected token''"
  have h1: "decode ?p (Text ''oops'') = Inl ''Unexpected token''" by (simp add: decode_def)
  have h2: "''error'' \<in> set (userOn (start [''error'']))" by (simp add: start_def)
  from onWsMsg_decode_error [OF h1 h2, of "Text ''{}''"] h1 h2 show ?thesis by simp
qed

theorem onWsMsg_decode_error_counterexample:
  "onWsMsg_new (\<lambda>t. Inl ''Unexpected token'') (start [''push'']) (Text ''oops'')
     = ([], Thrown ''failed to parse the msg data: Unexpected token'', start [''push'']) \<and>
   onWsMsg_old (\<lambda>t. Inl ''Unexpected token'') (start [''push'']) (Text ''oops'')
     = ([], Thrown ''failed to parse the msg data: Unexpected token'', start [''push''])"
  by (simp add: onWsMsg_new_def onWsMsg_old_def decode_def forward_def emit_def hasListeners_def
        start_def)

text \<open>
  C10. When \<^verbatim>\<open>data.rawMsgData\<close> is a plain object, \<^verbatim>\<open>sendCmd\<close> deletes the \<open>data\<close> property
  of that very object before it builds the envelope: after the call the object
  the caller passed has no \<open>data\<close> property, in both revisions, and the envelope
  was built from the object so cleared.
\<close>

theorem sendCmd_clears_rawMsgData:
  assumes "getMember data ''rawMsgData'' = JObj raw"
  shows "(\<exists>r. sendCmd_new uuid c data s = Returned r \<and>
              rawMsgAfter r = JObj (deleteProp raw ''data'') \<and>
              getMember (rawMsgAfter r) ''data'' = JUndef \<and>
              getMember (getMember (envelope r) ''data'') ''rawMsgData''
                = toUnderLine (JObj (deleteProp raw ''data''))) \<and>
         (\<exists>r. sendCmd_old uuid c data s = Returned r \<and>
              rawMsgAfter r = JObj (deleteProp raw ''data'') \<and>
              getMember (rawMsgAfter r) ''data'' = JUndef \<and>
              getMember (getMember (envelope r) ''data'') ''rawMsgData''
                = JObj (deleteProp raw ''data''))"
proof -
  from assms obtain kvs where d: "data = JObj kvs" using getMember_JObj_cases by blast
  have g: "getMember (JObj kvs) ''rawMsgData'' = JObj raw" using assms d by simp
  have n: "\<exists>r. sendCmd_new uuid c data s = Returned r \<and>
              rawMsgAfter r = JObj (deleteProp raw ''data'') \<and>
              getMember (getMember (envelope r) ''data'') ''rawMsgData''
                = toUnderLine (JObj (deleteProp raw ''data''))"
    unfolding sendCmd_new_def d using g
    by (simp add: Let_def case_prod_beta asyncSend_envelope getMember_setMember getMember_Cons getMember_Nil del: getMember.simps setMember.simps)
  have o: "\<exists>r. sendCmd_old uuid c data s = Returned r \<and>
              rawMsgAfter r = JObj (deleteProp raw ''data'') \<and>
              getMember (getMember (envelope r) ''data'') ''rawMsgData''
                = JObj (deleteProp raw ''data'')"
    unfolding sendCmd_old_def d using g
    by (simp add: Let_def case_prod_beta asyncSend_envelope getMember_setMember getMember_Cons getMember_Nil del: getMember.simps setMember.simps)
  have "getMember (JObj (deleteProp raw ''data'')) ''data'' = JUndef"
    by (simp add: getProp_deleteProp)
  with n o show ?thesis by metis
qed

theorem sendCmd_clears_rawMsgData_witness:
  "getMember (JObj [(''rawMsgData'', JObj [(''msgId'', JStr ''7''), (''data'', JStr ''base64''),
                                            (''fromUser'', JStr ''a'')])]) ''rawMsgData''
     = JObj [(''msgId'', JStr ''7''), (''data'', JStr ''base64''), (''fromUser'', JStr ''a'')] \<and>
   (\<exists>r. sendCmd_new ''u1'' ''getMsgImage''
          (JObj [(''rawMsgData'', JObj [(''msgId'', JStr ''7''), (''data'', JStr ''base64''),
                                         (''fromUser'', JStr ''a'')])]) (start []) = Returned r \<and>
        rawMsgAfter r = JObj [(''msgId'', JStr ''7''), (''fromUser'', JStr ''a'')]) \<and>
   (\<exists>r. sendCmd_old ''u1'' ''getMsgImage''
          (JObj [(''rawMsgData'', JObj [(''msgId'', JStr ''7''), (''data'', JStr ''base64''),
                                         (''fromUser'', JStr ''a'')])]) (start []) = Returned r \<and>
        rawMsgAfter r = JObj [(''msgId'', JStr ''7''), (''fromUser'', JStr ''a'')])"
proof -
  let ?raw = "[(''msgId'', JStr ''7''), (''data'', JStr ''base64''), (''fromUser'', JStr ''a'')]"
  let ?d = "JObj [(''rawMsgData'', JObj ?raw)]"
  have h: "getMember ?d ''rawMsgData'' = JObj ?raw" by (simp add: getProp_def)
  have e: "deleteProp ?raw ''data'' = [(''msgId'', JStr ''7''), (''fromUser'', JStr ''a'')]"
    by (simp add: deleteProp_def)
  from sendCmd_clears_rawMsgData [OF h, of "''u1''" "''getMsgImage''" "start []"] h
  show ?thesis unfolding e by blast
qed

end
